theory Spec2Isabelle
  imports Main
begin

section \<open>JavaScript values used by the client\<close>

text \<open>
  A value that may be \<open>undefined\<close> is an \<open>option\<close> (\<open>None\<close> is \<open>undefined\<close>), so the
  strict comparison \<open>a === b\<close> of two such values is equality of options: \<open>undefined\<close>
  is equal to \<open>undefined\<close> and to nothing else. Console output is not part of the model.
\<close>

datatype js_error = Error string | TypeError string | SyntaxError string | InvalidStateError string

text \<open>What a call evaluates to: a function declared \<open>void\<close> yields \<open>undefined\<close>.\<close>

datatype js_return = ReturnsUndefined | ReturnsBool bool

text \<open>Truthiness of a string that may be undefined: \<open>undefined\<close> and \<open>''\<close> are falsy.\<close>

definition truthy :: "string option \<Rightarrow> bool" where
  "truthy v = (case v of None \<Rightarrow> False | Some s \<Rightarrow> s \<noteq> [])"

text \<open>\<open>Array.prototype.join\<close> on an array of strings.\<close>

fun js_join :: "string \<Rightarrow> string list \<Rightarrow> string" where
  "js_join sep [] = []"
| "js_join sep [s] = s"
| "js_join sep (s # t # rest) = s @ sep @ js_join sep (t # rest)"

text \<open>A non-negative integer in a template literal: its decimal digits.\<close>

fun string_of_nat :: "nat \<Rightarrow> string" where
  "string_of_nat n =
     (if n < 10 then [''0123456789'' ! n]
      else string_of_nat (n div 10) @ [''0123456789'' ! (n mod 10)])"

declare string_of_nat.simps [simp del]

text \<open>
  \<open>String.prototype.trim\<close>. A \<open>char\<close> stands for a code unit below 256; the white space
  and line terminators of ECMAScript in that range are TAB, LF, VT, FF, CR, SP and NBSP.
\<close>

definition is_ws :: "char \<Rightarrow> bool" where
  "is_ws c = (of_char c \<in> {9, 10, 11, 12, 13, 32, 160 :: nat})"

definition trim :: "string \<Rightarrow> string" where
  "trim s = rev (dropWhile is_ws (rev (dropWhile is_ws s)))"

section \<open>Comments: records of the server and of the store\<close>

text \<open>
  \<open>CommentResponse\<close> (commentsApi.ts). The source's \<open>_id\<close> and \<open>id\<close> are both optional
  ("puede venir como 'id'"); they are the fields \<open>underscore_id\<close> and \<open>plain_id\<close> here.
  Numbers are integers: the client does no arithmetic on coordinates.
\<close>

record CommentResponse =
  underscore_id :: "string option"
  plain_id :: "string option"
  dashboard_id :: string
  user_id :: string
  user_name :: "string option"
  content :: string
  coordinates :: "int list"
  created_at :: string
  updated_at :: string

text \<open>
  \<open>CommentDef\<close> is declared in types/types.ts, which is not among the sources; its fields
  are the ones useComments.ts and commentsApi.ts read and write. The source's \<open>id\<close>,
  \<open>text\<close>, \<open>x\<close>, \<open>y\<close> and \<open>user\<close> carry the prefix \<open>c_\<close>.
\<close>

record CommentUser =
  name :: string

record CommentDef =
  c_id :: string
  backendId :: "string option"
  c_text :: string
  c_x :: "int option"
  c_y :: "int option"
  c_user :: CommentUser
  dashboardId :: string
  userId :: string
  createdAt :: "string option"
  updatedAt :: "string option"

text \<open>Reading \<open>a[i]\<close> of an array: \<open>undefined\<close> beyond its end.\<close>

definition js_index :: "'a list \<Rightarrow> nat \<Rightarrow> 'a option" where
  "js_index xs i = (if i < length xs then Some (xs ! i) else None)"

text \<open>\<open>backendComment._id || backendComment.id || ''\<close>\<close>

definition commentId :: "CommentResponse \<Rightarrow> string" where
  "commentId backendComment =
     (case underscore_id backendComment of
        Some s \<Rightarrow>
          (if s \<noteq> [] then s
           else (case plain_id backendComment of
                   Some t \<Rightarrow> (if t \<noteq> [] then t else [])
                 | None \<Rightarrow> []))
      | None \<Rightarrow>
          (case plain_id backendComment of
             Some t \<Rightarrow> (if t \<noteq> [] then t else [])
           | None \<Rightarrow> []))"

text \<open>\<open>CommentsApiService.convertToFrontendComment\<close>\<close>

definition convertToFrontendComment :: "CommentResponse \<Rightarrow> CommentDef" where
  "convertToFrontendComment backendComment =
     \<lparr> c_id = commentId backendComment,
       backendId = Some (commentId backendComment),
       c_text = content backendComment,
       c_x = js_index (coordinates backendComment) 0,
       c_y = js_index (coordinates backendComment) 1,
       c_user = \<lparr> name = (case user_name backendComment of
                              Some n \<Rightarrow> (if n \<noteq> [] then n else ''Usuario'')
                            | None \<Rightarrow> ''Usuario'') \<rparr>,
       dashboardId = dashboard_id backendComment,
       userId = user_id backendComment,
       createdAt = Some (created_at backendComment),
       updatedAt = Some (updated_at backendComment) \<rparr>"

section \<open>The comment store (useComments.ts)\<close>

text \<open>
  The store is the React state \<open>comments\<close>; every handler is the updater it passes to
  \<open>setComments\<close>, a function from the previous list to the next.
\<close>

definition handleCommentCreated :: "CommentResponse \<Rightarrow> CommentDef list \<Rightarrow> CommentDef list" where
  "handleCommentCreated backendComment prev =
     (let frontend = convertToFrontendComment backendComment;
          exists = list_ex (\<lambda>c. backendId c = backendId frontend \<or>
                     (truthy (backendId c) \<and> backendId c = underscore_id backendComment)) prev
      in if exists
         then map (\<lambda>c. if backendId c = backendId frontend \<or>
                           backendId c = underscore_id backendComment
                        then frontend else c) prev
         else prev @ [frontend])"

definition handleCommentUpdated :: "CommentResponse \<Rightarrow> CommentDef list \<Rightarrow> CommentDef list" where
  "handleCommentUpdated backendComment prev =
     (let frontend = convertToFrontendComment backendComment
      in map (\<lambda>c. if backendId c = backendId frontend \<or>
                      backendId c = underscore_id backendComment
                   then frontend else c) prev)"

definition handleCommentDeleted :: "string \<Rightarrow> CommentDef list \<Rightarrow> CommentDef list" where
  "handleCommentDeleted commentId' prev = filter (\<lambda>c. backendId c \<noteq> Some commentId') prev"

text \<open>The three events of the comment stream and their dispatch (useCommentsWebSocket.ts).\<close>

datatype comment_event =
    comment_created CommentResponse
  | comment_updated CommentResponse
  | comment_deleted string

fun apply_event :: "comment_event \<Rightarrow> CommentDef list \<Rightarrow> CommentDef list" where
  "apply_event (comment_created d) store = handleCommentCreated d store"
| "apply_event (comment_updated d) store = handleCommentUpdated d store"
| "apply_event (comment_deleted i) store = handleCommentDeleted i store"

text \<open>
  \<open>createTemporaryComment\<close>: \<open>now\<close> is \<open>Date.now()\<close>, \<open>storedName\<close> is
  \<open>localStorage.getItem('user_name')\<close>. It returns the new store and the comment.
\<close>

definition createTemporaryComment ::
  "string \<Rightarrow> string \<Rightarrow> nat \<Rightarrow> string option \<Rightarrow> int \<Rightarrow> int \<Rightarrow> CommentDef list
   \<Rightarrow> CommentDef list \<times> CommentDef" where
  "createTemporaryComment dashboardId' userId' now storedName x y prev =
     (let tempComment =
        \<lparr> c_id = ''temp-'' @ string_of_nat now,
          backendId = None,
          c_text = [],
          c_x = Some x,
          c_y = Some y,
          c_user = \<lparr> name = (case storedName of
                                 Some n \<Rightarrow> (if n \<noteq> [] then n else ''Usuario'')
                               | None \<Rightarrow> ''Usuario'') \<rparr>,
          dashboardId = dashboardId',
          userId = userId',
          createdAt = None,
          updatedAt = None \<rparr>
      in (prev @ [tempComment], tempComment))"

text \<open>
  \<open>saveTemporaryComment\<close> is asynchronous. \<open>comments\<close> is the list the callback closed
  over when it was called, \<open>created\<close> is how the awaited
  \<open>CommentsApiService.createComment\<close> settled (\<open>Inl\<close>: it threw), and \<open>prev\<close> is the store
  at the moment the updater of \<open>setComments\<close> runs, which is after the await: events of
  the stream may have been applied in between. The result is the store afterwards and
  what the promise settles to: \<open>Inl\<close> the rethrown error, \<open>Inr None\<close> for the early
  \<open>return\<close>, \<open>Inr (Some converted)\<close> otherwise. The request sent to the server is built
  from the comment and the new text; the server is not part of the model.
\<close>

definition saveTemporaryComment ::
  "CommentDef list \<Rightarrow> string \<Rightarrow> (js_error + CommentResponse) \<Rightarrow> string option
   \<Rightarrow> CommentDef list \<Rightarrow> CommentDef list \<times> (js_error + CommentDef option)" where
  "saveTemporaryComment comments tempId created storedName prev =
     (case find (\<lambda>c. c_id c = tempId) comments of
        None \<Rightarrow> (prev, Inr None)
      | Some comment \<Rightarrow>
          (case created of
             Inl err \<Rightarrow> (prev, Inl err)
           | Inr newComment \<Rightarrow>
               (let converted0 = convertToFrontendComment newComment;
                    converted = (case storedName of
                                   Some n \<Rightarrow> (if n \<noteq> [] then converted0\<lparr>c_user := \<lparr>name = n\<rparr>\<rparr>
                                              else converted0)
                                 | None \<Rightarrow> converted0)
                in (map (\<lambda>c. if c_id c = tempId then converted else c) prev,
                    Inr (Some converted)))))"

text \<open>How many entities of the store carry a given \<open>remoteId\<close>.\<close>

definition count_remote :: "string \<Rightarrow> CommentDef list \<Rightarrow> nat" where
  "count_remote rid store = length (filter (\<lambda>c. backendId c = Some rid) store)"

section \<open>The REST gateway (commentsApi.ts, chatApi.ts)\<close>

text \<open>
  A JSON value as \<open>JSON.parse\<close> builds it. A number is given by the string that
  \<open>String\<close> prints for it: the gateway only tests numbers for truth and prints them.
  The fields of an object are in the order of the text; a key given twice has its last
  value.
\<close>

datatype json =
    JNull
  | JBool bool
  | JNum string
  | JStr string
  | JArr "json list"
  | JObj "(string \<times> json) list"

text \<open>Truthiness of a value that may be \<open>undefined\<close>; the number that prints as \<open>0\<close> is falsy.\<close>

definition js_truthy :: "json option \<Rightarrow> bool" where
  "js_truthy v =
     (case v of
        None \<Rightarrow> False
      | Some JNull \<Rightarrow> False
      | Some (JBool b) \<Rightarrow> b
      | Some (JNum s) \<Rightarrow> s \<noteq> ''0''
      | Some (JStr s) \<Rightarrow> s \<noteq> []
      | Some (JArr xs) \<Rightarrow> True
      | Some (JObj kvs) \<Rightarrow> True)"

text \<open>
  Reading the property \<open>key\<close> of a value, for a key that no prototype defines (the gateway
  reads \<open>detail\<close> and \<open>msg\<close>): \<open>null\<close> has no properties and the read throws, an object
  gives its own field or \<open>undefined\<close>, every other value gives \<open>undefined\<close>.
\<close>

definition js_get :: "json \<Rightarrow> string \<Rightarrow> js_error + json option" where
  "js_get v key =
     (case v of
        JNull \<Rightarrow> Inl (TypeError (''Cannot read properties of null (reading '' @ key @ '')''))
      | JBool b \<Rightarrow> Inr None
      | JNum s \<Rightarrow> Inr None
      | JStr s \<Rightarrow> Inr None
      | JArr xs \<Rightarrow> Inr None
      | JObj kvs \<Rightarrow> Inr (map_of (rev kvs) key))"

text \<open>
  Conversion to a string, as a template literal and \<open>join\<close> do it. An array prints its
  elements joined by commas, \<open>null\<close> among them as the empty string. An object prints as
  \<open>[object Object]\<close>, unless it has a field \<open>toString\<close> of its own: that field is not a
  function, and the conversion throws.
\<close>

fun js_to_string :: "json \<Rightarrow> js_error + string"
  and js_join_items :: "json list \<Rightarrow> js_error + string list" where
  "js_to_string JNull = Inr ''null''"
| "js_to_string (JBool b) = Inr (if b then ''true'' else ''false'')"
| "js_to_string (JNum s) = Inr s"
| "js_to_string (JStr s) = Inr s"
| "js_to_string (JArr xs) =
     (case js_join_items xs of
        Inl e \<Rightarrow> Inl e
      | Inr ss \<Rightarrow> Inr (js_join '','' ss))"
| "js_to_string (JObj kvs) =
     (if ''toString'' \<in> set (map fst kvs)
      then Inl (TypeError ''Cannot convert object to primitive value'')
      else Inr ''[object Object]'')"
| "js_join_items [] = Inr []"
| "js_join_items (x # xs) =
     (case (if x = JNull then Inr [] else js_to_string x) of
        Inl e \<Rightarrow> Inl e
      | Inr s \<Rightarrow>
          (case js_join_items xs of
             Inl e \<Rightarrow> Inl e
           | Inr ss \<Rightarrow> Inr (s # ss)))"

text \<open>
  What \<open>fetch\<close> settled to is the input of every call: \<open>Inl\<close> when it rejected, otherwise
  the response. The body is read in two ways by the code. On the error path
  \<open>response.json()\<close> gives any JSON value, \<open>json_body\<close>, and \<open>None\<close> stands for a body
  that is not JSON, where the \<open>catch\<close> puts \<open>{}\<close>. On the success path the value is used
  at the type the call declares, \<open>payload\<close>, and \<open>None\<close> stands for a body that is not
  JSON, where the call rejects.
\<close>

record 'a http_response =
  status :: nat
  statusText :: string
  json_body :: "json option"
  payload :: "'a option"

text \<open>\<open>response.ok\<close>\<close>

definition ok :: "'a http_response \<Rightarrow> bool" where
  "ok response = (200 \<le> status response \<and> status response \<le> 299)"

text \<open>\<open>await response.json().catch(() => ({}))\<close>\<close>

definition errorData :: "'a http_response \<Rightarrow> json" where
  "errorData response = (case json_body response of None \<Rightarrow> JObj [] | Some j \<Rightarrow> j)"

text \<open>\<open>${errorData.detail || response.statusText}\<close>\<close>

definition detail_or_statusText :: "'a http_response \<Rightarrow> js_error + string" where
  "detail_or_statusText response =
     (case js_get (errorData response) ''detail'' of
        Inl e \<Rightarrow> Inl e
      | Inr d \<Rightarrow>
          if js_truthy d
          then (case d of Some j \<Rightarrow> js_to_string j | None \<Rightarrow> Inr (statusText response))
          else Inr (statusText response))"

text \<open>
  \<open>validationErrors.map((e) => e.msg).join(', ')\<close>: first every \<open>msg\<close> is read, then
  \<open>join\<close> prints them, \<open>undefined\<close> and \<open>null\<close> as the empty string.
\<close>

fun validation_msgs :: "json list \<Rightarrow> js_error + json option list" where
  "validation_msgs [] = Inr []"
| "validation_msgs (e # es) =
     (case js_get e ''msg'' of
        Inl err \<Rightarrow> Inl err
      | Inr m \<Rightarrow>
          (case validation_msgs es of
             Inl err \<Rightarrow> Inl err
           | Inr ms \<Rightarrow> Inr (m # ms)))"

fun join_msgs :: "json option list \<Rightarrow> js_error + string list" where
  "join_msgs [] = Inr []"
| "join_msgs (m # ms) =
     (case (case m of
              None \<Rightarrow> Inr []
            | Some j \<Rightarrow> (if j = JNull then Inr [] else js_to_string j)) of
        Inl err \<Rightarrow> Inl err
      | Inr s \<Rightarrow>
          (case join_msgs ms of
             Inl err \<Rightarrow> Inl err
           | Inr ss \<Rightarrow> Inr (s # ss)))"

definition validation_text :: "json list \<Rightarrow> js_error + string" where
  "validation_text validationErrors =
     (case validation_msgs validationErrors of
        Inl err \<Rightarrow> Inl err
      | Inr ms \<Rightarrow>
          (case join_msgs ms of
             Inl err \<Rightarrow> Inl err
           | Inr ss \<Rightarrow> Inr (js_join '', '' ss)))"

text \<open>
  \<open>createComment\<close>. On 422, \<open>errorData.detail || []\<close> is mapped: only an array has
  \<open>map\<close>, so a truthy detail of another kind throws.
\<close>

definition createComment :: "js_error + CommentResponse http_response \<Rightarrow> js_error + CommentResponse" where
  "createComment fetched =
     (case fetched of
        Inl e \<Rightarrow> Inl e
      | Inr response \<Rightarrow>
          if \<not> ok response then
            (if status response = 422 then
               (case js_get (errorData response) ''detail'' of
                  Inl e \<Rightarrow> Inl e
                | Inr d \<Rightarrow>
                    if js_truthy d then
                      (case d of
                         Some (JArr validationErrors) \<Rightarrow>
                           (case validation_text validationErrors of
                              Inl e \<Rightarrow> Inl e
                            | Inr t \<Rightarrow> Inl (Error (''Validation Error: '' @ t)))
                       | _ \<Rightarrow> Inl (TypeError ''validationErrors.map is not a function''))
                    else Inl (Error (''Validation Error: '' @ js_join '', '' [])))
             else (case detail_or_statusText response of
                     Inl e \<Rightarrow> Inl e
                   | Inr t \<Rightarrow>
                       Inl (Error (''Error creating comment: '' @
                                   string_of_nat (status response) @ '' - '' @ t))))
          else (case payload response of
                  None \<Rightarrow> Inl (SyntaxError ''Unexpected token'')
                | Some result \<Rightarrow> Inr result))"

definition getCommentsByDashboard ::
  "js_error + CommentResponse list http_response \<Rightarrow> js_error + CommentResponse list" where
  "getCommentsByDashboard fetched =
     (case fetched of
        Inl e \<Rightarrow> Inl e
      | Inr response \<Rightarrow>
          if \<not> ok response then
            (if status response = 404 then Inr []
             else Inl (Error (''Error fetching comments: '' @ string_of_nat (status response) @
                              '' - '' @ statusText response)))
          else (case payload response of
                  None \<Rightarrow> Inl (SyntaxError ''Unexpected token'')
                | Some result \<Rightarrow> Inr result))"




text \<open>
  \<open>ChatApiService.getMessages\<close>: the \<open>throw\<close> is inside the \<open>try\<close> whose \<open>catch\<close> returns
  the empty list, and so are a rejected \<open>fetch\<close> and a body that is not JSON.
\<close>

definition getMessages :: "js_error + 'm list http_response \<Rightarrow> js_error + 'm list" where
  "getMessages fetched =
     (case (case fetched of
              Inl e \<Rightarrow> Inl e
            | Inr response \<Rightarrow>
                if \<not> ok response then Inl (Error ''Failed to fetch messages'')
                else (case payload response of
                        None \<Rightarrow> Inl (SyntaxError ''Unexpected token'')
                      | Some result \<Rightarrow> Inr result)) of
        Inl err \<Rightarrow> Inr []
      | Inr result \<Rightarrow> Inr result)"

text \<open>
  The first half of \<open>saveTemporaryComment\<close> joined with the gateway: the store after
  persisting \<open>tempId\<close> when \<open>fetch\<close> settled to \<open>fetched\<close>.
\<close>

definition persist ::
  "CommentDef list \<Rightarrow> string \<Rightarrow> (js_error + CommentResponse http_response) \<Rightarrow> string option
   \<Rightarrow> CommentDef list \<Rightarrow> CommentDef list \<times> (js_error + CommentDef option)" where
  "persist comments tempId fetched storedName prev =
     saveTemporaryComment comments tempId (createComment fetched) storedName prev"

section \<open>WebSocket connections\<close>

text \<open>
  The browser's \<open>WebSocket\<close> as far as the client uses it: its \<open>readyState\<close> and the
  frames handed to the network. \<open>send\<close> throws while the socket is still connecting,
  transmits when it is open and discards the frame otherwise. A frame is kept as the
  object given to \<open>JSON.stringify\<close>: its \<open>type\<close> and the fields of its \<open>data\<close>.
\<close>

datatype ready_state = CONNECTING | OPEN | CLOSING | CLOSED

record frame =
  ftype :: string
  fdata :: "(string \<times> string) list"

record websocket =
  readyState :: ready_state
  sent :: "frame list"

definition ws_send :: "websocket \<Rightarrow> frame \<Rightarrow> js_error + websocket" where
  "ws_send sock f =
     (case readyState sock of
        CONNECTING \<Rightarrow> Inl (InvalidStateError ''Still in CONNECTING state'')
      | OPEN \<Rightarrow> Inr (sock\<lparr>sent := sent sock @ [f]\<rparr>)
      | CLOSING \<Rightarrow> Inr sock
      | CLOSED \<Rightarrow> Inr sock)"

definition new_WebSocket :: websocket where
  "new_WebSocket = \<lparr> readyState = CONNECTING, sent = [] \<rparr>"

text \<open>\<open>!wsRef.current || wsRef.current.readyState !== WebSocket.OPEN\<close>\<close>

definition not_open :: "websocket option \<Rightarrow> bool" where
  "not_open ref = (case ref of None \<Rightarrow> True | Some sock \<Rightarrow> readyState sock \<noteq> OPEN)"

section \<open>The comment stream (useCommentsWebSocket.ts)\<close>

text \<open>
  The refs of the hook carry the prefix \<open>c_\<close>. In this hook and in the chat hook,
  \<open>reconnectTimeoutRef\<close> holds the delay, in milliseconds, of the reconnect timer that is
  pending, \<open>None\<close> when there is none.
\<close>

record comments_ws =
  c_wsRef :: "websocket option"
  c_reconnectTimeoutRef :: "nat option"
  c_reconnectAttemptsRef :: nat

definition maxReconnectAttempts :: nat where
  "maxReconnectAttempts = 5"

definition comments_connect :: "comments_ws \<Rightarrow> comments_ws" where
  "comments_connect h = h\<lparr>c_wsRef := Some new_WebSocket\<rparr>"

definition comments_onopen :: "comments_ws \<Rightarrow> comments_ws" where
  "comments_onopen h = h\<lparr>c_reconnectAttemptsRef := 0\<rparr>"

definition comments_onclose :: "comments_ws \<Rightarrow> comments_ws" where
  "comments_onclose h =
     (let h1 = h\<lparr>c_wsRef := None\<rparr>
      in if c_reconnectAttemptsRef h1 < maxReconnectAttempts
         then (let h2 = h1\<lparr>c_reconnectAttemptsRef := c_reconnectAttemptsRef h1 + 1\<rparr>;
                   delay = min (1000 * 2 ^ c_reconnectAttemptsRef h2) 10000
               in h2\<lparr>c_reconnectTimeoutRef := Some delay\<rparr>)
         else h1)"

text \<open>The callback given to \<open>setTimeout\<close> runs: the timer is no longer pending.\<close>

definition comments_timer_fired :: "comments_ws \<Rightarrow> comments_ws" where
  "comments_timer_fired h = comments_connect (h\<lparr>c_reconnectTimeoutRef := None\<rparr>)"

text \<open>
  \<open>n\<close> closes in a row, every reconnect failing before it opens: the delays of the timers
  scheduled, and the hook afterwards. It stops at the first close that schedules nothing.
\<close>

fun comments_failures :: "nat \<Rightarrow> comments_ws \<Rightarrow> nat list \<times> comments_ws" where
  "comments_failures 0 h = ([], h)"
| "comments_failures (Suc n) h =
     (let h1 = comments_onclose h
      in case c_reconnectTimeoutRef h1 of
           None \<Rightarrow> ([], h1)
         | Some delay \<Rightarrow>
             (let r = comments_failures n (comments_timer_fired h1)
              in (delay # fst r, snd r)))"

text \<open>
  An inbound frame after \<open>JSON.parse\<close>: the three message types of the \<open>switch\<close> and its
  \<open>default\<close>. The parser is the platform's and a parameter of the handler: \<open>None\<close> when it
  throws. A frame that parses is taken to have the fields its handler reads. The whole
  body of \<open>onmessage\<close> is inside its \<open>try\<close>, so the handler has no outcome but the next
  state.
\<close>

datatype CommentWebSocketMessage =
    known_type comment_event
  | unknown_type string

definition comments_onmessage ::
  "(string \<Rightarrow> CommentWebSocketMessage option) \<Rightarrow> string
   \<Rightarrow> comments_ws \<times> CommentDef list \<Rightarrow> comments_ws \<times> CommentDef list" where
  "comments_onmessage JSON_parse event_data st =
     (case JSON_parse event_data of
        None \<Rightarrow> st
      | Some (known_type e) \<Rightarrow> (fst st, apply_event e (snd st))
      | Some (unknown_type t) \<Rightarrow> st)"

section \<open>The chat stream (useChatWebSocket.ts)\<close>

datatype message_type = user | system

record ChatMessage =
  m_id :: string
  m_user_id :: string
  m_username :: string
  m_message :: string
  m_timestamp :: string
  m_message_type :: message_type

datatype user_status = online | offline

record ConnectedUser =
  u_user_id :: string
  u_username :: string
  u_status :: user_status

text \<open>
  The state of the hook: its four React states, its three refs, and two effects it
  starts: how often \<open>fetchConnectedUsers\<close> was called and the \<open>comment_created\<close> events
  dispatched on \<open>window\<close>.
\<close>

record chat_hook =
  messages :: "ChatMessage list"
  connectedUsers :: "ConnectedUser list"
  isConnected :: bool
  error :: "string option"
  wsRef :: "websocket option"
  reconnectTimeoutRef :: "nat option"
  reconnectAttemptsRef :: nat
  usersFetched :: nat
  dispatched :: "CommentResponse list"

record chat_data =
  d_id :: string
  d_user_id :: string
  d_username :: string
  d_content :: string
  d_timestamp :: string

text \<open>
  An inbound frame after \<open>JSON.parse\<close>, by its \<open>type\<close>; \<open>user_joined\<close> and \<open>user_left\<close> carry
  \<open>data.username\<close> and \<open>data.timestamp\<close>, \<open>error_message\<close> carries the frame's \<open>message\<close>.
\<close>

datatype chat_frame =
    chat_message chat_data
  | user_joined string string
  | chat_comment_created CommentResponse
  | user_left string string
  | users_list "ConnectedUser list"
  | error_message "string option"
  | other_type string

definition connectWebSocket :: "chat_hook \<Rightarrow> chat_hook" where
  "connectWebSocket st = st\<lparr>wsRef := Some new_WebSocket\<rparr>"

definition chat_onopen :: "chat_hook \<Rightarrow> chat_hook" where
  "chat_onopen st = st\<lparr>isConnected := True, error := None, reconnectAttemptsRef := 0\<rparr>"

definition chat_onerror :: "chat_hook \<Rightarrow> chat_hook" where
  "chat_onerror st = st\<lparr>error := Some ''Connection error''\<rparr>"

definition chat_onclose :: "chat_hook \<Rightarrow> chat_hook" where
  "chat_onclose st =
     (let st1 = st\<lparr>isConnected := False\<rparr>
      in if reconnectAttemptsRef st1 < 5
         then (let delay = min (1000 * 2 ^ reconnectAttemptsRef st1) 10000
               in st1\<lparr>reconnectTimeoutRef := Some delay\<rparr>)
         else st1\<lparr>error := Some ''Failed to connect after multiple attempts''\<rparr>)"

definition chat_timer_fired :: "chat_hook \<Rightarrow> chat_hook" where
  "chat_timer_fired st =
     connectWebSocket (st\<lparr>reconnectTimeoutRef := None,
                           reconnectAttemptsRef := reconnectAttemptsRef st + 1\<rparr>)"

fun chat_failures :: "nat \<Rightarrow> chat_hook \<Rightarrow> nat list \<times> chat_hook" where
  "chat_failures 0 st = ([], st)"
| "chat_failures (Suc n) st =
     (let st1 = chat_onclose st
      in case reconnectTimeoutRef st1 of
           None \<Rightarrow> ([], st1)
         | Some delay \<Rightarrow>
             (let r = chat_failures n (chat_timer_fired st1)
              in (delay # fst r, snd r)))"

text \<open>\<open>ws.onmessage\<close>; \<open>now\<close> is \<open>Date.now()\<close>.\<close>

definition chat_onmessage ::
  "(string \<Rightarrow> chat_frame option) \<Rightarrow> nat \<Rightarrow> string \<Rightarrow> chat_hook \<Rightarrow> chat_hook" where
  "chat_onmessage JSON_parse now event_data st =
     (case JSON_parse event_data of
        None \<Rightarrow> st
      | Some (chat_message d) \<Rightarrow>
          st\<lparr>messages := messages st @
               [\<lparr> m_id = d_id d, m_user_id = d_user_id d, m_username = d_username d,
                  m_message = d_content d, m_timestamp = d_timestamp d,
                  m_message_type = user \<rparr>]\<rparr>
      | Some (user_joined username timestamp) \<Rightarrow>
          st\<lparr>messages := messages st @
               [\<lparr> m_id = ''system-'' @ string_of_nat now, m_user_id = ''system'',
                  m_username = ''System'', m_message = username @ '' joined the chat'',
                  m_timestamp = timestamp, m_message_type = system \<rparr>],
             usersFetched := usersFetched st + 1\<rparr>
      | Some (chat_comment_created d) \<Rightarrow> st\<lparr>dispatched := dispatched st @ [d]\<rparr>
      | Some (user_left username timestamp) \<Rightarrow>
          st\<lparr>messages := messages st @
               [\<lparr> m_id = ''system-'' @ string_of_nat now, m_user_id = ''system'',
                  m_username = ''System'', m_message = username @ '' left the chat'',
                  m_timestamp = timestamp, m_message_type = system \<rparr>],
             usersFetched := usersFetched st + 1\<rparr>
      | Some (users_list us) \<Rightarrow> st\<lparr>connectedUsers := us\<rparr>
      | Some (error_message m) \<Rightarrow> st\<lparr>error := m\<rparr>
      | Some (other_type t) \<Rightarrow> st)"

text \<open>
  The hook's \<open>sendMessage\<close>. The result is the state afterwards and how the call ended:
  \<open>Inl\<close> an exception that escaped, \<open>Inr\<close> the value returned.
\<close>

definition sendMessage :: "string \<Rightarrow> chat_hook \<Rightarrow> chat_hook \<times> (js_error + js_return)" where
  "sendMessage message st =
     (case wsRef st of
        None \<Rightarrow> (st\<lparr>error := Some ''Not connected to chat''\<rparr>, Inr (ReturnsBool False))
      | Some sock \<Rightarrow>
          if readyState sock \<noteq> OPEN
          then (st\<lparr>error := Some ''Not connected to chat''\<rparr>, Inr (ReturnsBool False))
          else if trim message = [] then (st, Inr (ReturnsBool False))
          else (case ws_send sock \<lparr> ftype = ''chat_message'',
                                     fdata = [(''message'', trim message)] \<rparr> of
                  Inr sock' \<Rightarrow> (st\<lparr>wsRef := Some sock'\<rparr>, Inr (ReturnsBool True))
                | Inl err \<Rightarrow>
                    (st\<lparr>error := Some ''Failed to send message''\<rparr>, Inr (ReturnsBool False))))"

text \<open>\<open>window.sendChatWsEvent\<close>, installed by \<open>onopen\<close>.\<close>

definition sendChatWsEvent ::
  "string \<Rightarrow> (string \<times> string) list \<Rightarrow> chat_hook \<Rightarrow> chat_hook \<times> (js_error + js_return)" where
  "sendChatWsEvent type' data st =
     (case wsRef st of
        None \<Rightarrow> (st, Inr (ReturnsBool False))
      | Some sock \<Rightarrow>
          if readyState sock \<noteq> OPEN then (st, Inr (ReturnsBool False))
          else (case ws_send sock \<lparr> ftype = type', fdata = data \<rparr> of
                  Inr sock' \<Rightarrow> (st\<lparr>wsRef := Some sock'\<rparr>, Inr (ReturnsBool True))
                | Inl err \<Rightarrow> (st, Inr (ReturnsBool False))))"

section \<open>The chat service (chatApi.ts)\<close>

record ApiChatMessage =
  a_id :: string
  a_user_id :: string
  a_username :: string
  a_content :: string
  a_message_type :: string
  a_timestamp :: string
  a_dashboard_id :: string
  a_reply_to :: "string option"

text \<open>
  The service's socket and, in order, the messages it passed to
  \<open>notifyMessageHandlers\<close>.
\<close>

record ChatApiService =
  service_ws :: "websocket option"
  notified :: "ApiChatMessage list"

text \<open>
  \<open>ChatApiService.sendMessage\<close>, declared \<open>void\<close> and without a \<open>try\<close>. \<open>now\<close> is
  \<open>Date.now()\<close>, \<open>random\<close> is \<open>Math.random()\<close> as printed, \<open>isoNow\<close> is
  \<open>new Date().toISOString()\<close>.
\<close>

definition service_sendMessage ::
  "string \<Rightarrow> string \<Rightarrow> string \<Rightarrow> string \<Rightarrow> nat \<Rightarrow> string \<Rightarrow> string \<Rightarrow> ChatApiService
   \<Rightarrow> ChatApiService \<times> (js_error + js_return)" where
  "service_sendMessage message userId' username dashboardId' now random isoNow svc =
     (case service_ws svc of
        None \<Rightarrow> (svc, Inr ReturnsUndefined)
      | Some sock \<Rightarrow>
          if readyState sock = OPEN
          then (let optimisticMessage =
                      \<lparr> a_id = ''temp_'' @ string_of_nat now @ ''_'' @ random,
                        a_user_id = userId', a_username = username, a_content = message,
                        a_message_type = ''text'', a_timestamp = isoNow,
                        a_dashboard_id = dashboardId', a_reply_to = None \<rparr>;
                    svc1 = svc\<lparr>notified := notified svc @ [optimisticMessage]\<rparr>
                in case ws_send sock \<lparr> ftype = ''chat_message'',
                                       fdata = [(''content'', message),
                                                (''message_type'', ''text'')] \<rparr> of
                     Inr sock' \<Rightarrow> (svc1\<lparr>service_ws := Some sock'\<rparr>, Inr ReturnsUndefined)
                   | Inl err \<Rightarrow> (svc1, Inl err))
          else (svc, Inr ReturnsUndefined))"

section \<open>Values used in the examples\<close>

definition temp1 :: CommentDef where
  "temp1 = snd (createTemporaryComment ''7'' ''42'' 1 None 10 20 [])"

definition server_c1 :: CommentResponse where
  "server_c1 =
     \<lparr> underscore_id = Some ''c1'', plain_id = None, dashboard_id = ''d7'', user_id = ''u42'',
       user_name = Some ''Ana'', content = ''hi'', coordinates = [10, 20],
       created_at = ''2025-01-01T00:00:00Z'', updated_at = ''2025-01-01T00:00:00Z'' \<rparr>"

text \<open>The same record as the server sends it under \<open>id\<close> instead of \<open>_id\<close>.\<close>

definition server_c1_plain :: CommentResponse where
  "server_c1_plain = server_c1\<lparr>underscore_id := None, plain_id := Some ''c1''\<rparr>"

definition response_500 :: "'a http_response" where
  "response_500 =
     \<lparr> status = 500, statusText = ''Internal Server Error'', json_body = None, payload = None \<rparr>"

definition response_201 :: "CommentResponse http_response" where
  "response_201 =
     \<lparr> status = 201, statusText = ''Created'', json_body = None, payload = Some server_c1 \<rparr>"

definition chat_initial :: chat_hook where
  "chat_initial =
     \<lparr> messages = [], connectedUsers = [], isConnected = False, error = None,
       wsRef = None, reconnectTimeoutRef = None, reconnectAttemptsRef = 0,
       usersFetched = 0, dispatched = [] \<rparr>"

definition comments_ws_initial :: comments_ws where
  "comments_ws_initial =
     \<lparr> c_wsRef = None, c_reconnectTimeoutRef = None, c_reconnectAttemptsRef = 0 \<rparr>"

definition open_socket :: websocket where
  "open_socket = \<lparr> readyState = OPEN, sent = [] \<rparr>"

text \<open>The comment \<open>c1\<close> as the store holds it before an edit.\<close>

definition old_c1 :: CommentDef where
  "old_c1 =
     convertToFrontendComment
       (server_c1\<lparr>content := ''old'', updated_at := ''2024-12-31T00:00:00Z''\<rparr>)"

definition response_404 :: "CommentResponse list http_response" where
  "response_404 =
     \<lparr> status = 404, statusText = ''Not Found'', json_body = None, payload = None \<rparr>"

text \<open>
  A validation failure as the comments service reports it, the same response with a
  string for \<open>detail\<close>, and an error response whose body is the JSON text \<open>null\<close>.
\<close>

definition validation_errors :: "json list" where
  "validation_errors =
     [JObj [(''loc'', JArr [JStr ''body'', JStr ''content'']),
            (''msg'', JStr ''field required''),
            (''type'', JStr ''value_error.missing'')],
      JObj [(''loc'', JArr [JStr ''body'', JStr ''coordinates'']),
            (''msg'', JStr ''value is not a valid string''),
            (''type'', JStr ''type_error.str'')]]"

definition response_422 :: "CommentResponse http_response" where
  "response_422 =
     \<lparr> status = 422, statusText = ''Unprocessable Entity'',
       json_body = Some (JObj [(''detail'', JArr validation_errors)]),
       payload = None \<rparr>"

definition response_422_string :: "CommentResponse http_response" where
  "response_422_string =
     response_422\<lparr>json_body := Some (JObj [(''detail'', JStr ''Invalid coordinates'')])\<rparr>"

definition response_400_string :: "CommentResponse http_response" where
  "response_400_string =
     \<lparr> status = 400, statusText = ''Bad Request'',
       json_body = Some (JObj [(''detail'', JStr ''Invalid coordinates'')]),
       payload = None \<rparr>"

definition response_500_null :: "CommentResponse http_response" where
  "response_500_null = response_500\<lparr>json_body := Some JNull\<rparr>"

definition closed_socket :: websocket where
  "closed_socket = \<lparr> readyState = CLOSED, sent = [] \<rparr>"

definition chat_closed :: chat_hook where
  "chat_closed = chat_initial\<lparr>wsRef := Some closed_socket\<rparr>"

definition chat_open :: chat_hook where
  "chat_open = chat_initial\<lparr>wsRef := Some open_socket, isConnected := True\<rparr>"

definition chat_gave_up :: chat_hook where
  "chat_gave_up = chat_closed\<lparr>reconnectAttemptsRef := 5\<rparr>"

definition comments_gave_up :: comments_ws where
  "comments_gave_up = comments_ws_initial\<lparr>c_reconnectAttemptsRef := 5\<rparr>"

definition service_unconnected :: ChatApiService where
  "service_unconnected = \<lparr> service_ws = None, notified = [] \<rparr>"

text \<open>Two parsers for the examples: each knows one frame and throws on the rest.\<close>

definition parse_chat_example :: "string \<Rightarrow> chat_frame option" where
  "parse_chat_example s = (if s = ''{}'' then Some (other_type []) else None)"

definition parse_comments_example :: "string \<Rightarrow> CommentWebSocketMessage option" where
  "parse_comments_example s = (if s = ''{}'' then Some (unknown_type []) else None)"

section \<open>Facts about the values above\<close>

lemma temp1_eq:
  "temp1 = \<lparr> c_id = ''temp-1'', backendId = None, c_text = [], c_x = Some 10, c_y = Some 20,
             c_user = \<lparr> name = ''Usuario'' \<rparr>, dashboardId = ''7'', userId = ''42'',
             createdAt = None, updatedAt = None \<rparr>"
  by (simp add: temp1_def createTemporaryComment_def Let_def string_of_nat.simps)

lemma temp1_ids [simp]: "backendId temp1 = None" "c_id temp1 = ''temp-1''"
  by (simp_all add: temp1_eq)

lemma backendId_convert [simp]:
  "backendId (convertToFrontendComment b) = Some (commentId b)"
  by (simp add: convertToFrontendComment_def)

lemma c_id_convert [simp]: "c_id (convertToFrontendComment b) = commentId b"
  by (simp add: convertToFrontendComment_def)

lemma server_c1_ids [simp]:
  "underscore_id server_c1 = Some ''c1''" "commentId server_c1 = ''c1''"
  by (simp_all add: commentId_def server_c1_def)

lemma server_c1_plain_ids [simp]:
  "underscore_id server_c1_plain = None" "commentId server_c1_plain = ''c1''"
  by (simp_all add: commentId_def server_c1_plain_def server_c1_def)

lemma old_c1_ids [simp]: "backendId old_c1 = Some ''c1''"
  by (simp add: old_c1_def commentId_def server_c1_def)

lemma string_of_nat_500 [simp]: "string_of_nat 500 = ''500''"
  by (simp add: string_of_nat.simps)

lemma string_of_nat_400 [simp]: "string_of_nat 400 = ''400''"
  by (simp add: string_of_nat.simps)

lemma response_500_fields [simp]:
  "status response_500 = 500" "statusText response_500 = ''Internal Server Error''"
  "json_body response_500 = None" "\<not> ok response_500"
  by (simp_all add: response_500_def ok_def)

lemma response_422_fields [simp]:
  "status response_422 = 422" "\<not> ok response_422"
  "json_body response_422 = Some (JObj [(''detail'', JArr validation_errors)])"
  by (simp_all add: response_422_def ok_def)

lemma response_422_string_fields [simp]:
  "status response_422_string = 422" "\<not> ok response_422_string"
  "json_body response_422_string = Some (JObj [(''detail'', JStr ''Invalid coordinates'')])"
  by (simp_all add: response_422_string_def response_422_def ok_def)

lemma response_400_string_fields [simp]:
  "status response_400_string = 400" "\<not> ok response_400_string"
  "statusText response_400_string = ''Bad Request''"
  "json_body response_400_string = Some (JObj [(''detail'', JStr ''Invalid coordinates'')])"
  by (simp_all add: response_400_string_def ok_def)

lemma response_500_null_fields [simp]:
  "status response_500_null = 500" "\<not> ok response_500_null"
  "json_body response_500_null = Some JNull"
  by (simp_all add: response_500_null_def response_500_def ok_def)

lemma createComment_500:
  "createComment (Inr response_500) =
     Inl (Error ''Error creating comment: 500 - Internal Server Error'')"
  by (simp add: createComment_def detail_or_statusText_def errorData_def js_get_def
      js_truthy_def)

lemma createComment_201: "createComment (Inr response_201) = Inr server_c1"
  by (simp add: createComment_def response_201_def ok_def)

section \<open>The REST gateway\<close>

text \<open>
  C7. Listing the comments of a room: a response with status 404 gives the empty list
  as the result of the call, and every other status outside 200..299 makes the call
  throw an \<open>Error\<close>, whose message names the status.
\<close>

theorem getCommentsByDashboard_status:
  "(status response = 404 \<longrightarrow> getCommentsByDashboard (Inr response) = Inr []) \<and>
   (\<not> ok response \<and> status response \<noteq> 404 \<longrightarrow>
      getCommentsByDashboard (Inr response) =
        Inl (Error (''Error fetching comments: '' @ string_of_nat (status response) @
                    '' - '' @ statusText response)))"
  by (simp add: getCommentsByDashboard_def ok_def)

theorem getCommentsByDashboard_status_witness:
  "status response_404 = 404 \<and>
   getCommentsByDashboard (Inr response_404) = Inr [] \<and>
   \<not> ok (response_500 :: CommentResponse list http_response) \<and>
   status (response_500 :: CommentResponse list http_response) \<noteq> 404 \<and>
   getCommentsByDashboard (Inr response_500) =
     Inl (Error ''Error fetching comments: 500 - Internal Server Error'')"
proof -
  have a: "status response_404 = 404"
    by (simp add: response_404_def)
  have b: "\<not> ok (response_500 :: CommentResponse list http_response) \<and>
           status (response_500 :: CommentResponse list http_response) \<noteq> 404"
    by simp
  from getCommentsByDashboard_status [of response_404] a
  have c: "getCommentsByDashboard (Inr response_404) = Inr []"
    by blast
  from getCommentsByDashboard_status [of response_500] b
  have "getCommentsByDashboard (Inr response_500) =
          Inl (Error (''Error fetching comments: '' @
                 string_of_nat (status (response_500 :: CommentResponse list http_response)) @
                 '' - '' @ statusText (response_500 :: CommentResponse list http_response)))"
    by blast
  then have d: "getCommentsByDashboard (Inr response_500) =
                  Inl (Error ''Error fetching comments: 500 - Internal Server Error'')"
    by simp
  from a b c d show ?thesis by simp
qed


lemma detail_throws_iff:
  "isl (js_get (errorData r) ''detail'') \<longleftrightarrow> json_body r = Some JNull"
  by (simp add: errorData_def js_get_def split: option.splits json.splits)










lemma getMessages_never_throws: "\<not> isl (getMessages fetched)"
  by (simp add: getMessages_def split: sum.splits option.splits)

section \<open>Persisting a pending comment\<close>

text \<open>
  C5. When persisting a pending comment fails, that is, when the create call of the
  gateway throws (the request was rejected, the status is not a success, or the body
  cannot be read), \<open>saveTemporaryComment\<close> rethrows that very error to its caller and
  the store is the one it found, whatever was applied to it during the request: the
  pending record is left as it was and can be saved again or cancelled.
\<close>

theorem persist_failure_keeps_store:
  assumes "find (\<lambda>c. c_id c = tempId) comments = Some comment"
    and "createComment fetched = Inl e"
  shows "persist comments tempId fetched storedName prev = (prev, Inl e)"
  using assms by (simp add: persist_def saveTemporaryComment_def)

theorem persist_failure_keeps_store_witness:
  "find (\<lambda>c. c_id c = ''temp-1'') [temp1] = Some temp1 \<and>
   createComment (Inr response_500) =
     Inl (Error ''Error creating comment: 500 - Internal Server Error'') \<and>
   persist [temp1] ''temp-1'' (Inr response_500) None [temp1] =
     ([temp1], Inl (Error ''Error creating comment: 500 - Internal Server Error''))"
proof -
  have found: "find (\<lambda>c. c_id c = ''temp-1'') [temp1] = Some temp1"
    by simp
  from persist_failure_keeps_store [OF found createComment_500] found createComment_500
  show ?thesis by simp
qed

lemma persist_unknown_id_keeps_store:
  "find (\<lambda>c. c_id c = tempId) comments = None \<Longrightarrow>
     persist comments tempId fetched storedName prev = (prev, Inr None)"
  by (simp add: persist_def saveTemporaryComment_def)

section \<open>Reconciling the store with the comment stream\<close>

text \<open>
  The test of \<open>prev.some\<close> in \<open>handleCommentCreated\<close> compares with \<open>_id\<close> only when the
  entity has a non-empty \<open>backendId\<close>, so it is a comparison with the \<open>remoteId\<close> of the
  record.
\<close>

lemma truthy_underscore_id:
  "truthy (underscore_id b) \<Longrightarrow> underscore_id b = Some (commentId b)"
  by (auto simp: truthy_def commentId_def split: option.splits)

lemma exists_test:
  "(backendId c = Some (commentId b) \<or> (truthy (backendId c) \<and> backendId c = underscore_id b))
   \<longleftrightarrow> backendId c = Some (commentId b)"
  using truthy_underscore_id [of b] by auto

text \<open>
  The test inside \<open>map\<close>, in both handlers, lacks that guard. It is the comparison of
  \<open>remoteId\<close>s on every store in which no entity's \<open>backendId\<close> equals the record's \<open>_id\<close>
  without being its \<open>remoteId\<close>.
\<close>

lemma handleCommentUpdated_map:
  assumes "\<forall>c\<in>set prev. backendId c = underscore_id b \<longrightarrow> backendId c = Some (commentId b)"
  shows "handleCommentUpdated b prev =
           map (\<lambda>c. if backendId c = Some (commentId b)
                     then convertToFrontendComment b else c) prev"
proof -
  have "map (\<lambda>c. if backendId c = Some (commentId b) \<or> backendId c = underscore_id b
                  then convertToFrontendComment b else c) prev =
        map (\<lambda>c. if backendId c = Some (commentId b)
                  then convertToFrontendComment b else c) prev"
    using assms by (intro map_cong) auto
  then show ?thesis
    by (simp add: handleCommentUpdated_def Let_def)
qed

lemma handleCommentCreated_guarded:
  assumes "\<forall>c\<in>set s. backendId c = underscore_id b \<longrightarrow> backendId c = Some (commentId b)"
  shows "handleCommentCreated b s =
           (if \<exists>c\<in>set s. backendId c = Some (commentId b)
            then map (\<lambda>c. if backendId c = Some (commentId b)
                           then convertToFrontendComment b else c) s
            else s @ [convertToFrontendComment b])"
proof -
  have "map (\<lambda>c. if backendId c = Some (commentId b) \<or> backendId c = underscore_id b
                  then convertToFrontendComment b else c) s =
        map (\<lambda>c. if backendId c = Some (commentId b)
                  then convertToFrontendComment b else c) s"
    using assms by (intro map_cong) auto
  then show ?thesis
    by (simp add: handleCommentCreated_def Let_def exists_test list_ex_iff)
qed

text \<open>
  C2, as the code has it. \<open>handleCommentUpdated\<close> is a \<open>map\<close> over the store: it never
  inserts. Let the record carry its identifier in \<open>_id\<close>, or let it carry no \<open>_id\<close> and the
  store hold no entity without a \<open>backendId\<close>. Then every entity with the record's
  \<open>remoteId\<close> is replaced, where it stands, by the converted record, whose text,
  coordinates and timestamps are the server's; every other entity is kept, and so is the
  length of the store; and a store without that \<open>remoteId\<close> is left as it was.
\<close>

theorem handleCommentUpdated_in_place:
  assumes "underscore_id b = Some (commentId b) \<or>
           (underscore_id b = None \<and> (\<forall>c\<in>set prev. backendId c \<noteq> None))"
  shows "handleCommentUpdated b prev =
           map (\<lambda>c. if backendId c = Some (commentId b)
                     then convertToFrontendComment b else c) prev \<and>
         length (handleCommentUpdated b prev) = length prev \<and>
         ((\<forall>c\<in>set prev. backendId c \<noteq> Some (commentId b)) \<longrightarrow>
            handleCommentUpdated b prev = prev) \<and>
         backendId (convertToFrontendComment b) = Some (commentId b) \<and>
         c_text (convertToFrontendComment b) = content b \<and>
         c_x (convertToFrontendComment b) = js_index (coordinates b) 0 \<and>
         c_y (convertToFrontendComment b) = js_index (coordinates b) 1 \<and>
         createdAt (convertToFrontendComment b) = Some (created_at b) \<and>
         updatedAt (convertToFrontendComment b) = Some (updated_at b)"
proof -
  from assms
  have "\<forall>c\<in>set prev. backendId c = underscore_id b \<longrightarrow> backendId c = Some (commentId b)"
    by auto
  then have m: "handleCommentUpdated b prev =
                  map (\<lambda>c. if backendId c = Some (commentId b)
                            then convertToFrontendComment b else c) prev"
    by (rule handleCommentUpdated_map)
  have "(\<forall>c\<in>set prev. backendId c \<noteq> Some (commentId b)) \<longrightarrow>
          map (\<lambda>c. if backendId c = Some (commentId b)
                    then convertToFrontendComment b else c) prev = prev"
    by (simp add: map_idI)
  with m show ?thesis
    by (simp add: convertToFrontendComment_def)
qed

theorem handleCommentUpdated_in_place_witness:
  "handleCommentUpdated server_c1 [temp1, old_c1] = [temp1, convertToFrontendComment server_c1] \<and>
   length (handleCommentUpdated server_c1 [temp1, old_c1]) = 2 \<and>
   handleCommentUpdated server_c1 [temp1] = [temp1] \<and>
   c_text old_c1 = ''old'' \<and>
   c_text (convertToFrontendComment server_c1) = ''hi'' \<and>
   updatedAt (convertToFrontendComment server_c1) = Some ''2025-01-01T00:00:00Z''"
proof -
  have h: "underscore_id server_c1 = Some (commentId server_c1) \<or>
           (underscore_id server_c1 = None \<and> (\<forall>c\<in>set prev. backendId c \<noteq> None))"
    for prev :: "CommentDef list"
    by simp
  have absent: "\<forall>c\<in>set [temp1]. backendId c \<noteq> Some (commentId server_c1)"
    by simp
  note two = handleCommentUpdated_in_place [OF h, of "[temp1, old_c1]"]
  note one = handleCommentUpdated_in_place [OF h, of "[temp1]"]
  from one absent have a: "handleCommentUpdated server_c1 [temp1] = [temp1]"
    by blast
  from two have b: "handleCommentUpdated server_c1 [temp1, old_c1] =
                      [temp1, convertToFrontendComment server_c1]"
    by simp
  from two have c: "c_text (convertToFrontendComment server_c1) = ''hi'' \<and>
                    updatedAt (convertToFrontendComment server_c1) = Some ''2025-01-01T00:00:00Z''"
    by (simp add: server_c1_def)
  have d: "c_text old_c1 = ''old''"
    by (simp add: old_c1_def convertToFrontendComment_def)
  from a b c d show ?thesis by simp
qed

theorem update_unseen_counterexample:
  "count_remote ''c1'' [temp1] = 0 \<and>
   handleCommentUpdated server_c1 [temp1] = [temp1] \<and>
   count_remote ''c1'' (handleCommentUpdated server_c1 [temp1]) = 0"
  by (simp add: handleCommentUpdated_def count_remote_def)

text \<open>
  Where the guard is missing: an update whose record carries \<open>id\<close> and no \<open>_id\<close> replaces
  every pending comment of the store as well.
\<close>

lemma update_without_underscore_id_overwrites_pending:
  "handleCommentUpdated server_c1_plain [temp1, old_c1] =
     [convertToFrontendComment server_c1_plain, convertToFrontendComment server_c1_plain]"
  by (simp add: handleCommentUpdated_def Let_def)

subsection \<open>Applying an event twice\<close>

lemma updated_idem:
  "handleCommentUpdated b (handleCommentUpdated b s) = handleCommentUpdated b s"
  by (simp add: handleCommentUpdated_def Let_def)

lemma deleted_idem:
  "handleCommentDeleted i (handleCommentDeleted i s) = handleCommentDeleted i s"
  by (simp add: handleCommentDeleted_def)

lemma created_idem:
  assumes "underscore_id b = Some (commentId b) \<or> (\<forall>c\<in>set s. truthy (backendId c))"
  shows "handleCommentCreated b (handleCommentCreated b s) = handleCommentCreated b s"
proof -
  let ?F = "convertToFrontendComment b"
  let ?R = "\<lambda>c. backendId c = Some (commentId b)"
  let ?f = "\<lambda>c. if ?R c then ?F else c"
  have g: "\<forall>c\<in>set s. backendId c = underscore_id b \<longrightarrow> ?R c"
    using assms truthy_underscore_id [of b] by auto
  have g': "\<forall>c\<in>set (s @ [?F]). backendId c = underscore_id b \<longrightarrow> ?R c"
    using g by simp
  have g'': "\<forall>c\<in>set (map ?f s). backendId c = underscore_id b \<longrightarrow> ?R c"
    using g by auto
  show ?thesis
  proof (cases "\<exists>c\<in>set s. ?R c")
    case True
    then have 1: "handleCommentCreated b s = map ?f s"
      by (simp add: handleCommentCreated_guarded [OF g])
    from True obtain c0 where c0: "c0 \<in> set s" "?R c0"
      by blast
    from c0(1) have "?f c0 \<in> set (map ?f s)"
      unfolding set_map by (rule imageI)
    with c0 have "?F \<in> set (map ?f s)"
      by simp
    moreover have "?R ?F"
      by simp
    ultimately have 2: "\<exists>c\<in>set (map ?f s). ?R c"
      by blast
    have "handleCommentCreated b (map ?f s) = map ?f (map ?f s)"
      using 2 by (simp only: handleCommentCreated_guarded [OF g''] if_True)
    also have "\<dots> = map ?f s"
      by simp
    finally show ?thesis
      by (simp only: 1)
  next
    case False
    then have 1: "handleCommentCreated b s = s @ [?F]"
      by (simp add: handleCommentCreated_guarded [OF g])
    have "handleCommentCreated b (s @ [?F]) = map ?f (s @ [?F])"
      by (simp add: handleCommentCreated_guarded [OF g'])
    also have "\<dots> = s @ [?F]"
      using False by (simp add: map_idI)
    finally show ?thesis
      by (simp only: 1)
  qed
qed

text \<open>
  Every event of the stream is idempotent on a store without pending comments, and
  every event whose record carries \<open>_id\<close> is idempotent on every store.
\<close>

lemma apply_event_idem:
  assumes "\<forall>c\<in>set s. truthy (backendId c)"
  shows "apply_event e (apply_event e s) = apply_event e s"
  using assms by (cases e) (simp_all add: updated_idem deleted_idem created_idem)

text \<open>
  C4 at the input where the code departs from it: the store holds one pending comment,
  and the \<open>comment_created\<close> event carries its identifier under \<open>id\<close>, without \<open>_id\<close>.
  Applied once, the event appends the new comment; applied again, it finds that comment
  and then replaces the pending one too, because \<open>undefined === undefined\<close> in the test
  inside \<open>map\<close>. The two stores differ.
\<close>

theorem created_twice_differs:
  "apply_event (comment_created server_c1_plain) [temp1] =
     [temp1, convertToFrontendComment server_c1_plain] \<and>
   apply_event (comment_created server_c1_plain)
     (apply_event (comment_created server_c1_plain) [temp1]) =
     [convertToFrontendComment server_c1_plain, convertToFrontendComment server_c1_plain] \<and>
   temp1 \<noteq> convertToFrontendComment server_c1_plain"
proof -
  have once: "handleCommentCreated server_c1_plain [temp1] =
                [temp1, convertToFrontendComment server_c1_plain]"
    by (simp add: handleCommentCreated_def Let_def truthy_def)
  have twice: "handleCommentCreated server_c1_plain
                 [temp1, convertToFrontendComment server_c1_plain] =
               [convertToFrontendComment server_c1_plain,
                convertToFrontendComment server_c1_plain]"
    by (simp add: handleCommentCreated_def Let_def truthy_def)
  have "backendId temp1 \<noteq> backendId (convertToFrontendComment server_c1_plain)"
    by simp
  then have "temp1 \<noteq> convertToFrontendComment server_c1_plain"
    by metis
  with once twice show ?thesis
    by simp
qed

subsection \<open>A local comment, its persist response and its echo\<close>

lemma count_remote_replace:
  assumes "count_remote rid prev = 0" and "backendId conv = Some rid"
  shows "count_remote rid (map (\<lambda>c. if c_id c = tempId then conv else c) prev) =
         length (filter (\<lambda>c. c_id c = tempId) prev)"
  using assms by (induction prev) (auto simp: count_remote_def split: if_splits)

lemma count_remote_overwrite:
  "backendId F = Some rid \<Longrightarrow>
     count_remote rid (map (\<lambda>c. if backendId c = Some rid then F else c) s) = count_remote rid s"
  by (induction s) (auto simp: count_remote_def)

lemma count_remote_pos: "0 < count_remote rid s \<Longrightarrow> \<exists>c\<in>set s. backendId c = Some rid"
  by (induction s) (auto simp: count_remote_def split: if_splits)

text \<open>
  The order in which the response is applied first: the pending comment becomes the
  confirmed one, the echo finds it by its \<open>remoteId\<close> and overwrites it. One entity.
\<close>

lemma persist_then_echo_once:
  assumes found: "find (\<lambda>c. c_id c = tempId) comments = Some t"
    and created: "createComment fetched = Inr b"
    and uid: "underscore_id b = Some (commentId b)"
    and fresh: "count_remote (commentId b) prev = 0"
    and pending: "length (filter (\<lambda>c. c_id c = tempId) prev) = 1"
  shows "count_remote (commentId b)
           (handleCommentCreated b (fst (persist comments tempId fetched storedName prev))) = 1"
proof -
  define conv where
    "conv = (case storedName of
               Some n \<Rightarrow> (if n \<noteq> [] then (convertToFrontendComment b)\<lparr>c_user := \<lparr>name = n\<rparr>\<rparr>
                          else convertToFrontendComment b)
             | None \<Rightarrow> convertToFrontendComment b)"
  have conv: "backendId conv = Some (commentId b)"
    by (simp add: conv_def split: option.splits)
  have p: "fst (persist comments tempId fetched storedName prev) =
             map (\<lambda>c. if c_id c = tempId then conv else c) prev"
    using found created
    by (simp add: persist_def saveTemporaryComment_def Let_def conv_def)
  let ?s1 = "map (\<lambda>c. if c_id c = tempId then conv else c) prev"
  have one: "count_remote (commentId b) ?s1 = 1"
    using count_remote_replace [OF fresh conv] pending by simp
  then have ex: "\<exists>c\<in>set ?s1. backendId c = Some (commentId b)"
    using count_remote_pos [of "commentId b" ?s1] by simp
  have g: "\<forall>c\<in>set ?s1. backendId c = underscore_id b \<longrightarrow> backendId c = Some (commentId b)"
    using uid by simp
  have "handleCommentCreated b ?s1 =
          map (\<lambda>c. if backendId c = Some (commentId b) then convertToFrontendComment b else c) ?s1"
    using ex by (simp only: handleCommentCreated_guarded [OF g] if_True)
  then have "count_remote (commentId b) (handleCommentCreated b ?s1) = count_remote (commentId b) ?s1"
    by (simp only: count_remote_overwrite [OF backendId_convert])
  with one p show ?thesis
    by simp
qed

text \<open>
  C1 at the input where the code departs from it: the echo arrives while the create
  request is in flight. The store holds the pending comment \<open>temp-1\<close>. The echo of \<open>c1\<close>
  matches no \<open>backendId\<close> (the pending comment has none) and is appended; the response
  then turns the pending comment into \<open>c1\<close> as well. The store ends with two entities
  of the \<open>remoteId\<close> \<open>c1\<close>.
\<close>

theorem echo_before_persist_duplicates:
  "handleCommentCreated server_c1 [temp1] = [temp1, convertToFrontendComment server_c1] \<and>
   fst (persist [temp1] ''temp-1'' (Inr response_201) None
          (handleCommentCreated server_c1 [temp1])) =
     [convertToFrontendComment server_c1, convertToFrontendComment server_c1] \<and>
   count_remote ''c1''
     (fst (persist [temp1] ''temp-1'' (Inr response_201) None
             (handleCommentCreated server_c1 [temp1]))) = 2"
proof -
  have e: "handleCommentCreated server_c1 [temp1] = [temp1, convertToFrontendComment server_c1]"
    by (simp add: handleCommentCreated_def Let_def truthy_def)
  have p: "fst (persist [temp1] ''temp-1'' (Inr response_201) None
             [temp1, convertToFrontendComment server_c1]) =
           [convertToFrontendComment server_c1, convertToFrontendComment server_c1]"
    by (simp add: persist_def saveTemporaryComment_def createComment_201 Let_def)
  from e p show ?thesis
    by (simp add: count_remote_def)
qed

lemma persist_before_echo_example:
  "count_remote ''c1''
     (handleCommentCreated server_c1
        (fst (persist [temp1] ''temp-1'' (Inr response_201) None [temp1]))) = 1"
proof -
  have "find (\<lambda>c. c_id c = ''temp-1'') [temp1] = Some temp1"
    by simp
  from persist_then_echo_once [OF this createComment_201, of "[temp1]" None]
  show ?thesis
    by (simp add: count_remote_def)
qed

section \<open>Reconnecting after a close\<close>

lemma chat_cycle:
  "reconnectAttemptsRef st < 5 \<Longrightarrow>
     reconnectTimeoutRef (chat_onclose st) =
       Some (min (1000 * 2 ^ reconnectAttemptsRef st) 10000) \<and>
     reconnectAttemptsRef (chat_timer_fired (chat_onclose st)) = reconnectAttemptsRef st + 1 \<and>
     reconnectTimeoutRef (chat_timer_fired (chat_onclose st)) = None \<and>
     wsRef (chat_timer_fired (chat_onclose st)) = Some new_WebSocket"
  by (simp add: chat_onclose_def chat_timer_fired_def connectWebSocket_def Let_def)

lemma chat_stop:
  "5 \<le> reconnectAttemptsRef st \<Longrightarrow>
     chat_onclose st =
       st\<lparr>isConnected := False, error := Some ''Failed to connect after multiple attempts''\<rparr>"
  by (simp add: chat_onclose_def Let_def)

lemma comments_cycle:
  "c_reconnectAttemptsRef h < 5 \<Longrightarrow>
     c_reconnectTimeoutRef (comments_onclose h) =
       Some (min (1000 * 2 ^ (c_reconnectAttemptsRef h + 1)) 10000) \<and>
     c_reconnectAttemptsRef (comments_timer_fired (comments_onclose h)) =
       c_reconnectAttemptsRef h + 1 \<and>
     c_reconnectTimeoutRef (comments_timer_fired (comments_onclose h)) = None \<and>
     c_wsRef (comments_timer_fired (comments_onclose h)) = Some new_WebSocket"
  by (simp add: comments_onclose_def comments_timer_fired_def comments_connect_def
      maxReconnectAttempts_def Let_def)

lemma comments_stop:
  "5 \<le> c_reconnectAttemptsRef h \<Longrightarrow> comments_onclose h = h\<lparr>c_wsRef := None\<rparr>"
  by (simp add: comments_onclose_def maxReconnectAttempts_def Let_def)

text \<open>
  The delays of \<open>n\<close> failures in a row, from any number of attempts made so far: one per
  attempt number below 5, and none after.
\<close>

lemma chat_failures_delays:
  "reconnectTimeoutRef st = None \<Longrightarrow>
     fst (chat_failures n st) =
       map (\<lambda>k. min (1000 * 2 ^ k) 10000)
         [reconnectAttemptsRef st ..< min (reconnectAttemptsRef st + n) 5]"
proof (induction n arbitrary: st)
  case 0
  then show ?case by simp
next
  case (Suc n)
  show ?case
  proof (cases "reconnectAttemptsRef st < 5")
    case True
    let ?st' = "chat_timer_fired (chat_onclose st)"
    from chat_cycle [OF True]
    have t: "reconnectTimeoutRef (chat_onclose st) =
               Some (min (1000 * 2 ^ reconnectAttemptsRef st) 10000)"
      and a: "reconnectAttemptsRef ?st' = reconnectAttemptsRef st + 1"
      and p: "reconnectTimeoutRef ?st' = None"
      by simp_all
    have lt: "reconnectAttemptsRef st < min (reconnectAttemptsRef st + Suc n) 5"
      using True by simp
    have "fst (chat_failures (Suc n) st) =
            min (1000 * 2 ^ reconnectAttemptsRef st) 10000 # fst (chat_failures n ?st')"
      by (simp add: t Let_def)
    also have "fst (chat_failures n ?st') =
                 map (\<lambda>k. min (1000 * 2 ^ k) 10000)
                   [Suc (reconnectAttemptsRef st) ..< min (reconnectAttemptsRef st + Suc n) 5]"
      using Suc.IH [OF p]
      by (simp only: a add_Suc_right add_Suc add_0_right Suc_eq_plus1 [symmetric])
    finally show ?thesis
      by (simp only: upt_conv_Cons [OF lt] list.map)
  next
    case False
    then have "5 \<le> reconnectAttemptsRef st"
      by simp
    from chat_stop [OF this] Suc.prems
    have "reconnectTimeoutRef (chat_onclose st) = None"
      by simp
    then show ?thesis
      using False by (simp add: Let_def)
  qed
qed

lemma comments_failures_delays:
  "c_reconnectTimeoutRef h = None \<Longrightarrow>
     fst (comments_failures n h) =
       map (\<lambda>k. min (1000 * 2 ^ (k + 1)) 10000)
         [c_reconnectAttemptsRef h ..< min (c_reconnectAttemptsRef h + n) 5]"
proof (induction n arbitrary: h)
  case 0
  then show ?case by simp
next
  case (Suc n)
  show ?case
  proof (cases "c_reconnectAttemptsRef h < 5")
    case True
    let ?h' = "comments_timer_fired (comments_onclose h)"
    from comments_cycle [OF True]
    have t: "c_reconnectTimeoutRef (comments_onclose h) =
               Some (min (1000 * 2 ^ (c_reconnectAttemptsRef h + 1)) 10000)"
      and a: "c_reconnectAttemptsRef ?h' = c_reconnectAttemptsRef h + 1"
      and p: "c_reconnectTimeoutRef ?h' = None"
      by simp_all
    have lt: "c_reconnectAttemptsRef h < min (c_reconnectAttemptsRef h + Suc n) 5"
      using True by simp
    have "fst (comments_failures (Suc n) h) =
            min (1000 * 2 ^ (c_reconnectAttemptsRef h + 1)) 10000 # fst (comments_failures n ?h')"
      by (simp add: t Let_def)
    also have "fst (comments_failures n ?h') =
                 map (\<lambda>k. min (1000 * 2 ^ (k + 1)) 10000)
                   [Suc (c_reconnectAttemptsRef h) ..< min (c_reconnectAttemptsRef h + Suc n) 5]"
      using Suc.IH [OF p]
      by (simp only: a add_Suc_right add_Suc add_0_right Suc_eq_plus1 [symmetric])
    finally show ?thesis
      by (simp only: upt_conv_Cons [OF lt] list.map)
  next
    case False
    then have "5 \<le> c_reconnectAttemptsRef h"
      by simp
    from comments_stop [OF this] Suc.prems
    have "c_reconnectTimeoutRef (comments_onclose h) = None"
      by simp
    then show ?thesis
      using False by (simp add: Let_def)
  qed
qed

lemma upt_0_5: "[0..<5] = [0, 1, 2, 3, 4::nat]"
  by (simp add: upt_rec)

lemma initial_refs [simp]:
  "reconnectTimeoutRef chat_initial = None" "reconnectAttemptsRef chat_initial = 0"
  "c_reconnectTimeoutRef comments_ws_initial = None"
  "c_reconnectAttemptsRef comments_ws_initial = 0"
  by (simp_all add: chat_initial_def comments_ws_initial_def)

lemma gave_up_refs [simp]:
  "reconnectAttemptsRef chat_gave_up = 5" "reconnectTimeoutRef chat_gave_up = None"
  "c_reconnectAttemptsRef comments_gave_up = 5" "c_reconnectTimeoutRef comments_gave_up = None"
  by (simp_all add: chat_gave_up_def chat_closed_def chat_initial_def comments_gave_up_def
      comments_ws_initial_def)

text \<open>
  C3, as the code has it. With fewer than 5 attempts made, a close schedules a reconnect
  in both hooks, and the timer's callback opens a new socket. The chat hook takes the
  delay \<open>min(1000 * 2^attempt, 10000)\<close> from the attempts made so far and counts the
  attempt when the timer fires, so its delays are 1000, 2000, 4000, 8000, 10000; the
  comments hook counts the attempt first, so its delays are 2000, 4000, 8000, 10000,
  10000. With 5 attempts made, a close schedules nothing in either hook: the chat hook
  sets its error to \<open>Failed to connect after multiple attempts\<close>, the comments hook
  changes nothing but its socket reference.
\<close>

theorem reconnect_backoff:
  "(reconnectAttemptsRef st < 5 \<longrightarrow>
      reconnectTimeoutRef (chat_onclose st) =
        Some (min (1000 * 2 ^ reconnectAttemptsRef st) 10000) \<and>
      reconnectAttemptsRef (chat_timer_fired (chat_onclose st)) = reconnectAttemptsRef st + 1 \<and>
      wsRef (chat_timer_fired (chat_onclose st)) = Some new_WebSocket) \<and>
   (5 \<le> reconnectAttemptsRef st \<longrightarrow>
      chat_onclose st =
        st\<lparr>isConnected := False,
           error := Some ''Failed to connect after multiple attempts''\<rparr>) \<and>
   (reconnectTimeoutRef st = None \<longrightarrow>
      fst (chat_failures n st) =
        map (\<lambda>k. min (1000 * 2 ^ k) 10000)
          [reconnectAttemptsRef st ..< min (reconnectAttemptsRef st + n) 5]) \<and>
   (c_reconnectAttemptsRef h < 5 \<longrightarrow>
      c_reconnectTimeoutRef (comments_onclose h) =
        Some (min (1000 * 2 ^ (c_reconnectAttemptsRef h + 1)) 10000) \<and>
      c_reconnectAttemptsRef (comments_onclose h) = c_reconnectAttemptsRef h + 1 \<and>
      c_wsRef (comments_timer_fired (comments_onclose h)) = Some new_WebSocket) \<and>
   (5 \<le> c_reconnectAttemptsRef h \<longrightarrow> comments_onclose h = h\<lparr>c_wsRef := None\<rparr>) \<and>
   (c_reconnectTimeoutRef h = None \<longrightarrow>
      fst (comments_failures n h) =
        map (\<lambda>k. min (1000 * 2 ^ (k + 1)) 10000)
          [c_reconnectAttemptsRef h ..< min (c_reconnectAttemptsRef h + n) 5])"
proof -
  have "c_reconnectAttemptsRef h < 5 \<longrightarrow>
          c_reconnectAttemptsRef (comments_onclose h) = c_reconnectAttemptsRef h + 1"
    by (simp add: comments_onclose_def maxReconnectAttempts_def Let_def)
  with chat_cycle [of st] chat_stop [of st] chat_failures_delays [of st n]
    comments_cycle [of h] comments_stop [of h] comments_failures_delays [of h n]
  show ?thesis
    by blast
qed

theorem reconnect_backoff_witness:
  "reconnectTimeoutRef (chat_onclose chat_initial) = Some 1000 \<and>
   fst (chat_failures 6 chat_initial) = [1000, 2000, 4000, 8000, 10000] \<and>
   c_reconnectTimeoutRef (comments_onclose comments_ws_initial) = Some 2000 \<and>
   fst (comments_failures 6 comments_ws_initial) = [2000, 4000, 8000, 10000, 10000] \<and>
   chat_onclose chat_gave_up =
     chat_gave_up\<lparr>isConnected := False,
                  error := Some ''Failed to connect after multiple attempts''\<rparr> \<and>
   fst (chat_failures 1 chat_gave_up) = [] \<and>
   comments_onclose comments_gave_up = comments_gave_up\<lparr>c_wsRef := None\<rparr> \<and>
   fst (comments_failures 1 comments_gave_up) = []"
proof -
  note start = reconnect_backoff [of chat_initial 6 comments_ws_initial]
  note stop = reconnect_backoff [of chat_gave_up 1 comments_gave_up]
  from start have a: "reconnectTimeoutRef (chat_onclose chat_initial) = Some 1000"
    by simp
  from start have b: "fst (chat_failures 6 chat_initial) = [1000, 2000, 4000, 8000, 10000]"
    by (simp add: upt_0_5)
  from start have c: "c_reconnectTimeoutRef (comments_onclose comments_ws_initial) = Some 2000"
    by simp
  from start
  have d: "fst (comments_failures 6 comments_ws_initial) = [2000, 4000, 8000, 10000, 10000]"
    by (simp add: upt_0_5)
  from stop have e: "chat_onclose chat_gave_up =
     chat_gave_up\<lparr>isConnected := False,
                  error := Some ''Failed to connect after multiple attempts''\<rparr>"
    by simp
  from stop have f: "fst (chat_failures 1 chat_gave_up) = []"
    by simp
  from stop have g: "comments_onclose comments_gave_up = comments_gave_up\<lparr>c_wsRef := None\<rparr>"
    by simp
  from stop have i: "fst (comments_failures 1 comments_gave_up) = []"
    by simp
  from a b c d e f g i show ?thesis
    by blast
qed

theorem chat_backoff_counterexample:
  "reconnectAttemptsRef chat_initial = 0 \<and>
   reconnectTimeoutRef (chat_onclose chat_initial) = Some 1000 \<and>
   fst (chat_failures 5 chat_initial) = [1000, 2000, 4000, 8000, 10000] \<and>
   fst (chat_failures 5 chat_initial) \<noteq> [2000, 4000, 8000, 10000, 10000]"
proof -
  have "reconnectTimeoutRef (chat_onclose chat_initial) = Some 1000"
    using chat_cycle [of chat_initial] by simp
  moreover have "fst (chat_failures 5 chat_initial) = [1000, 2000, 4000, 8000, 10000]"
    by (simp add: chat_failures_delays upt_0_5)
  ultimately show ?thesis
    by simp
qed

section \<open>Sending\<close>

lemma not_open_examples [simp]:
  "not_open (wsRef chat_closed)" "not_open (service_ws service_unconnected)"
  "\<not> not_open (wsRef chat_open)"
  by (simp_all add: not_open_def chat_closed_def closed_socket_def service_unconnected_def
      chat_open_def open_socket_def)

text \<open>
  C6, as the code has it. While the socket is missing or not open, none of the three
  send operations throws, transmits or keeps the frame: the hook's \<open>sendMessage\<close> returns
  \<open>false\<close> and only sets the error \<open>Not connected to chat\<close>; \<open>window.sendChatWsEvent\<close>
  returns \<open>false\<close> and changes nothing; \<open>ChatApiService.sendMessage\<close>, which is declared
  \<open>void\<close>, returns no value, notifies no handler and changes nothing.
\<close>

theorem send_while_not_open:
  "(not_open (wsRef st) \<longrightarrow>
      sendMessage message st =
        (st\<lparr>error := Some ''Not connected to chat''\<rparr>, Inr (ReturnsBool False)) \<and>
      sendChatWsEvent type' data st = (st, Inr (ReturnsBool False))) \<and>
   (not_open (service_ws svc) \<longrightarrow>
      service_sendMessage message userId' username dashboardId' now random isoNow svc =
        (svc, Inr ReturnsUndefined))"
  by (auto simp: not_open_def sendMessage_def sendChatWsEvent_def service_sendMessage_def
      split: option.splits)

theorem send_while_not_open_witness:
  "not_open (wsRef chat_closed) \<and>
   sendMessage ''hi'' chat_closed =
     (chat_closed\<lparr>error := Some ''Not connected to chat''\<rparr>, Inr (ReturnsBool False)) \<and>
   sendChatWsEvent ''ping'' [] chat_closed = (chat_closed, Inr (ReturnsBool False)) \<and>
   not_open (service_ws service_unconnected) \<and>
   service_sendMessage ''hi'' ''u42'' ''Ana'' ''d7'' 1 ''0.5'' ''2025-01-01T00:00:00.000Z''
       service_unconnected =
     (service_unconnected, Inr ReturnsUndefined)"
  using send_while_not_open [where st = chat_closed and svc = service_unconnected
      and message = "''hi''" and type' = "''ping''" and data = "[]" and userId' = "''u42''"
      and username = "''Ana''" and dashboardId' = "''d7''" and now = 1 and random = "''0.5''"
      and isoNow = "''2025-01-01T00:00:00.000Z''"]
  by simp

theorem service_send_counterexample:
  "not_open (service_ws service_unconnected) \<and>
   snd (service_sendMessage ''hi'' ''u42'' ''Ana'' ''d7'' 1 ''0.5''
          ''2025-01-01T00:00:00.000Z'' service_unconnected) = Inr ReturnsUndefined \<and>
   snd (service_sendMessage ''hi'' ''u42'' ''Ana'' ''d7'' 1 ''0.5''
          ''2025-01-01T00:00:00.000Z'' service_unconnected) \<noteq> Inr (ReturnsBool False)"
  by (simp add: service_sendMessage_def service_unconnected_def not_open_def)

lemma all_dropWhile: "(\<forall>x\<in>set (dropWhile P s). P x) \<longleftrightarrow> (\<forall>x\<in>set s. P x)"
  by (induction s) auto

lemma trim_empty_iff: "trim s = [] \<longleftrightarrow> (\<forall>c\<in>set s. is_ws c)"
  by (simp add: trim_def all_dropWhile)

text \<open>
  C10. The hook's \<open>sendMessage\<close> on a string that is empty or all white space returns
  \<open>false\<close> and leaves the socket as it was, and the whole state when the socket is open.
  Whenever it returns \<open>true\<close>, the socket was open and exactly one frame was handed to
  it, of type \<open>chat_message\<close>, whose data is the trimmed string; and on an open socket it
  returns \<open>true\<close> for every other string.
\<close>

theorem sendMessage_trims:
  "((\<forall>c\<in>set message. is_ws c) \<longrightarrow>
      snd (sendMessage message st) = Inr (ReturnsBool False) \<and>
      wsRef (fst (sendMessage message st)) = wsRef st \<and>
      (\<not> not_open (wsRef st) \<longrightarrow> fst (sendMessage message st) = st)) \<and>
   (snd (sendMessage message st) = Inr (ReturnsBool True) \<longrightarrow>
      (\<exists>sock. wsRef st = Some sock \<and> readyState sock = OPEN \<and>
         fst (sendMessage message st) =
           st\<lparr>wsRef := Some (sock\<lparr>sent := sent sock @
                 [\<lparr> ftype = ''chat_message'', fdata = [(''message'', trim message)] \<rparr>]\<rparr>)\<rparr>)) \<and>
   (\<not> not_open (wsRef st) \<and> \<not> (\<forall>c\<in>set message. is_ws c) \<longrightarrow>
      snd (sendMessage message st) = Inr (ReturnsBool True))"
  by (auto simp: sendMessage_def not_open_def ws_send_def trim_empty_iff [symmetric]
      split: option.splits)

lemma trim_examples [simp]: "trim '' hi '' = ''hi''" "trim ''  '' = []"
  by (simp_all add: trim_def is_ws_def)

theorem sendMessage_trims_witness:
  "trim ''  '' = [] \<and>
   sendMessage ''  '' chat_open = (chat_open, Inr (ReturnsBool False)) \<and>
   snd (sendMessage '' hi '' chat_open) = Inr (ReturnsBool True) \<and>
   fst (sendMessage '' hi '' chat_open) =
     chat_open\<lparr>wsRef := Some (open_socket\<lparr>sent :=
       [\<lparr> ftype = ''chat_message'', fdata = [(''message'', ''hi'')] \<rparr>]\<rparr>)\<rparr>"
proof -
  have blank: "\<forall>c\<in>set ''  ''. is_ws c"
    by (simp add: is_ws_def)
  have word: "\<not> (\<forall>c\<in>set '' hi ''. is_ws c)"
    by (simp add: is_ws_def)
  have o: "wsRef chat_open = Some open_socket" "sent open_socket = []"
    by (simp_all add: chat_open_def open_socket_def)
  from sendMessage_trims [of "''  ''" chat_open] blank
  have a: "sendMessage ''  '' chat_open = (chat_open, Inr (ReturnsBool False))"
    by (simp add: prod_eq_iff)
  from sendMessage_trims [of "'' hi ''" chat_open] word
  have b: "snd (sendMessage '' hi '' chat_open) = Inr (ReturnsBool True)"
    by simp
  with sendMessage_trims [of "'' hi ''" chat_open] o
  have c: "fst (sendMessage '' hi '' chat_open) =
     chat_open\<lparr>wsRef := Some (open_socket\<lparr>sent :=
       [\<lparr> ftype = ''chat_message'', fdata = [(''message'', ''hi'')] \<rparr>]\<rparr>)\<rparr>"
    by auto
  from a b c show ?thesis
    by simp
qed

section \<open>Frames that are not JSON\<close>

text \<open>
  C9. When \<open>JSON.parse\<close> throws on the payload of an inbound frame, the \<open>catch\<close> of either
  \<open>onmessage\<close> handler ends the call: the handler returns, and the state is the one it
  found. For the chat hook that is the messages, the connected users, the error, the
  socket and the reconnect counters; for the comment stream, the hook's socket and
  counters and the store of comments.
\<close>

theorem malformed_frame_dropped:
  "(parse_chat event_data = None \<longrightarrow> chat_onmessage parse_chat now event_data st = st) \<and>
   (parse_comments event_data = None \<longrightarrow>
      comments_onmessage parse_comments event_data (h, store) = (h, store))"
  by (simp add: chat_onmessage_def comments_onmessage_def)

theorem malformed_frame_dropped_witness:
  "parse_chat_example ''{oops'' = None \<and>
   chat_onmessage parse_chat_example 1 ''{oops'' chat_open = chat_open \<and>
   parse_comments_example ''{oops'' = None \<and>
   comments_onmessage parse_comments_example ''{oops'' (comments_ws_initial, [temp1]) =
     (comments_ws_initial, [temp1])"
proof -
  have a: "parse_chat_example ''{oops'' = None"
    by (simp add: parse_chat_example_def)
  have b: "parse_comments_example ''{oops'' = None"
    by (simp add: parse_comments_example_def)
  from malformed_frame_dropped [of parse_chat_example "''{oops''" 1 chat_open
      parse_comments_example comments_ws_initial "[temp1]"] a b
  show ?thesis
    by simp
qed

end
